theory Spec2Isabelle
  imports Main "HOL-Library.Word"
begin

section \<open>JavaScript strings\<close>

text \<open>
  The normalizer works on JavaScript strings. They are modelled as \<open>string\<close>
  (a list of \<open>char\<close>), one \<open>char\<close> per UTF-16 code unit, for the code units
  U+0000 to U+00FF; \<open>length\<close> is the \<open>.length\<close> of the source. The string
  methods below are those of ECMAScript on this range. A value that may be
  \<open>null\<close> or \<open>undefined\<close> is an \<open>option\<close>; the \<open>typeof x !== 'string'\<close> guards
  of the source hold by typing.
\<close>

definition code_unit :: "char \<Rightarrow> nat" where
  "code_unit c = of_char c"

text \<open>
  \<open>String.prototype.toLowerCase\<close>: on U+0000..U+00FF the letters with a
  different lower case are A-Z, U+00C0..U+00D6 and U+00D8..U+00DE, each mapped
  32 code units up.
\<close>

definition hasLowerCase :: "char \<Rightarrow> bool" where
  "hasLowerCase c \<longleftrightarrow>
     (let n = code_unit c in
      (65 \<le> n \<and> n \<le> 90) \<or> (192 \<le> n \<and> n \<le> 214) \<or> (216 \<le> n \<and> n \<le> 222))"

definition toLowerCase_char :: "char \<Rightarrow> char" where
  "toLowerCase_char c = (if hasLowerCase c then char_of (code_unit c + 32) else c)"

definition toLowerCase :: "string \<Rightarrow> string" where
  "toLowerCase s = map toLowerCase_char s"

text \<open>
  The class \<open>\s\<close> of a regular expression, which is also what \<open>trim\<close> removes:
  TAB, LF, VT, FF, CR, SPACE and U+00A0 on this range.
\<close>

definition isWhiteSpace :: "char \<Rightarrow> bool" where
  "isWhiteSpace c \<longleftrightarrow> code_unit c \<in> {9, 10, 11, 12, 13, 32, 160}"

definition trim :: "string \<Rightarrow> string" where
  "trim s = rev (dropWhile isWhiteSpace (rev (dropWhile isWhiteSpace s)))"

text \<open>The class \<open>\d\<close> (without the unicode flag): the ten ASCII digits.\<close>

definition isDigit :: "char \<Rightarrow> bool" where
  "isDigit c \<longleftrightarrow> 48 \<le> code_unit c \<and> code_unit c \<le> 57"

text \<open>\<open>s.replace(/\s+/g, ' ')\<close>: every maximal run of white space becomes one space.\<close>

function replace_ws_runs_by_space :: "string \<Rightarrow> string" where
  "replace_ws_runs_by_space [] = []"
| "replace_ws_runs_by_space (c # cs) =
     (if isWhiteSpace c then CHR '' '' # replace_ws_runs_by_space (dropWhile isWhiteSpace cs)
      else c # replace_ws_runs_by_space cs)"
  by pat_completeness auto
termination
  by (relation "measure length") (auto simp: length_dropWhile_le less_Suc_eq_le)

text \<open>\<open>s.replace(/\s+/g, '')\<close>: all white space is removed.\<close>

definition remove_ws :: "string \<Rightarrow> string" where
  "remove_ws s = filter (\<lambda>c. \<not> isWhiteSpace c) s"

text \<open>\<open>s.replace(/[^\d+]/g, '')\<close>: keeps the digits and every \<open>+\<close>, wherever it stands.\<close>

definition keep_digits_and_plus :: "string \<Rightarrow> string" where
  "keep_digits_and_plus s = filter (\<lambda>c. isDigit c \<or> c = CHR ''+'') s"

text \<open>\<open>s.replace(/[-\/\.]/g, '')\<close>: hyphens, slashes and periods are removed.\<close>

definition remove_date_separators :: "string \<Rightarrow> string" where
  "remove_date_separators s = filter (\<lambda>c. c \<noteq> CHR ''-'' \<and> c \<noteq> CHR ''/'' \<and> c \<noteq> CHR ''.'') s"

text \<open>\<open>/^\d{8}$/.test(s)\<close>: the whole string is eight digits.\<close>

definition test_eight_digits :: "string \<Rightarrow> bool" where
  "test_eight_digits s \<longleftrightarrow> length s = 8 \<and> list_all isDigit s"

text \<open>\<open>s.includes('@')\<close>, \<open>s.startsWith('+')\<close> and \<open>s.slice(1)\<close>.\<close>

definition includes_at :: "string \<Rightarrow> bool" where
  "includes_at s \<longleftrightarrow> CHR ''@'' \<in> set s"

definition startsWith_plus :: "string \<Rightarrow> bool" where
  "startsWith_plus s \<longleftrightarrow> (case s of [] \<Rightarrow> False | c # _ \<Rightarrow> c = CHR ''+'')"

definition slice1 :: "string \<Rightarrow> string" where
  "slice1 s = drop 1 s"

section \<open>Options of the Normalizer\<close>

text \<open>
  \<open>NormalizerOptions\<close> is what the caller passes (every field optional);
  \<open>Options\<close> is \<open>Required<NormalizerOptions>\<close>, what the constructor stores in
  \<open>this.options\<close>.
\<close>

record NormalizerOptions =
  opt_defaultCountryCode :: "string option"
  opt_hashAddressFields :: "bool option"

record Options =
  defaultCountryCode :: string
  hashAddressFields :: bool

definition no_options :: NormalizerOptions where
  "no_options = \<lparr>opt_defaultCountryCode = None, opt_hashAddressFields = None\<rparr>"

definition Normalizer :: "NormalizerOptions \<Rightarrow> Options" where
  "Normalizer options =
     \<lparr>defaultCountryCode = (case opt_defaultCountryCode options of None \<Rightarrow> ''1'' | Some c \<Rightarrow> c),
      hashAddressFields = (case opt_hashAddressFields options of None \<Rightarrow> False | Some b \<Rightarrow> b)\<rparr>"

section \<open>Field normalizers\<close>

text \<open>
  Each normalizer returns \<open>None\<close> where the source returns \<open>null\<close>. The first
  guard \<open>!x\<close> rejects the empty string.
\<close>

definition normalizeEmail :: "string \<Rightarrow> string option" where
  "normalizeEmail email =
     (if email = [] then None
      else let normalized = trim (toLowerCase email) in
        if \<not> includes_at normalized \<or> length normalized < 5 then None
        else Some normalized)"

definition normalizePhone :: "Options \<Rightarrow> string \<Rightarrow> string option \<Rightarrow> string option" where
  "normalizePhone this phone countryCode =
     (if phone = [] then None
      else let code = (case countryCode of None \<Rightarrow> defaultCountryCode this | Some c \<Rightarrow> c);
               digits = keep_digits_and_plus phone;
               digits = (if startsWith_plus digits then slice1 digits else digits) in
        if length digits < 10 then None
        else let digits = (if length digits = 10 then code @ digits else digits) in
          Some (''+'' @ digits))"

definition normalizeName :: "string \<Rightarrow> string option" where
  "normalizeName name =
     (if name = [] then None
      else let normalized = replace_ws_runs_by_space (trim (toLowerCase name)) in
        if length normalized = 0 then None
        else Some normalized)"

definition normalizeGender :: "string \<Rightarrow> string option" where
  "normalizeGender gender =
     (if gender = [] then None
      else let g = trim (toLowerCase gender) in
        if g = ''m'' \<or> g = ''male'' then Some ''m''
        else if g = ''f'' \<or> g = ''female'' then Some ''f''
        else None)"

definition normalizeDateOfBirth :: "string \<Rightarrow> string option" where
  "normalizeDateOfBirth dob =
     (if dob = [] then None
      else let cleaned = remove_date_separators dob in
        if \<not> test_eight_digits cleaned then None
        else Some cleaned)"

definition normalizeCity :: "string \<Rightarrow> string option" where
  "normalizeCity city =
     (if city = [] then None
      else let normalized = trim (toLowerCase city) in
        if length normalized = 0 then None
        else Some normalized)"

definition normalizeState :: "string \<Rightarrow> string option" where
  "normalizeState state =
     (if state = [] then None
      else let normalized = trim (toLowerCase state) in
        if length normalized = 0 then None
        else Some normalized)"

definition normalizeZipCode :: "string \<Rightarrow> string option" where
  "normalizeZipCode zipcode =
     (if zipcode = [] then None
      else let normalized = remove_ws (trim (toLowerCase zipcode)) in
        if length normalized = 0 then None
        else Some normalized)"

definition normalizeCountry :: "string \<Rightarrow> string option" where
  "normalizeCountry country =
     (if country = [] then None
      else let normalized = trim (toLowerCase country) in
        if length normalized \<noteq> 2 then None
        else Some normalized)"

section \<open>SHA-256 digests\<close>

text \<open>
  \<open>crypto.subtle.digest\<close> belongs to the platform, not to this repository: it
  is a parameter \<open>digest\<close> of the model, a function from the bytes of the
  message to the bytes of its hash. What SHA-256 guarantees about it, 32 bytes
  of output, is stated as \<open>digest32\<close> where a theorem needs it.
\<close>

type_synonym byte = "8 word"
type_synonym subtle_digest = "byte list \<Rightarrow> byte list"

definition digest32 :: "subtle_digest \<Rightarrow> bool" where
  "digest32 digest \<longleftrightarrow> (\<forall>data. length (digest data) = 32)"

text \<open>\<open>new TextEncoder().encode(input)\<close>: UTF-8, one byte below U+0080 and two from there on.\<close>

definition utf8_char :: "char \<Rightarrow> byte list" where
  "utf8_char c =
     (let n = code_unit c in
      if n < 128 then [of_nat n] else [of_nat (192 + n div 64), of_nat (128 + n mod 64)])"

definition TextEncoder_encode :: "string \<Rightarrow> byte list" where
  "TextEncoder_encode input = concat (map utf8_char input)"

text \<open>\<open>b.toString(16)\<close> of a byte, and \<open>s.padStart(2, '0')\<close>.\<close>

definition hex_digit :: "nat \<Rightarrow> char" where
  "hex_digit d = ''0123456789abcdef'' ! d"

definition toString16 :: "byte \<Rightarrow> string" where
  "toString16 b =
     (let n = unat b in
      if n < 16 then [hex_digit n] else [hex_digit (n div 16), hex_digit (n mod 16)])"

definition padStart2 :: "string \<Rightarrow> string" where
  "padStart2 s = replicate (2 - length s) CHR ''0'' @ s"

definition sha256 :: "subtle_digest \<Rightarrow> string \<Rightarrow> string" where
  "sha256 digest input =
     (let data = TextEncoder_encode input;
          hashBuffer = digest data;
          hashArray = hashBuffer;
          hashHex = concat (map (\<lambda>b. padStart2 (toString16 b)) hashArray)
      in hashHex)"

text \<open>\<open>/^[a-f0-9]{64}$/.test(value)\<close>.\<close>

definition isLowerHex :: "char \<Rightarrow> bool" where
  "isLowerHex c \<longleftrightarrow>
     (97 \<le> code_unit c \<and> code_unit c \<le> 102) \<or> (48 \<le> code_unit c \<and> code_unit c \<le> 57)"

definition isSha256 :: "string \<Rightarrow> bool" where
  "isSha256 v \<longleftrightarrow> length v = 64 \<and> list_all isLowerHex v"

section \<open>Hash methods\<close>

text \<open>
  \<open>normalized ? sha256(normalized) : null\<close>: the test is JavaScript
  truthiness, so an empty normalized string would give \<open>null\<close> as well.
\<close>

definition hashEmail :: "subtle_digest \<Rightarrow> string \<Rightarrow> string option" where
  "hashEmail digest email =
     (case normalizeEmail email of
        None \<Rightarrow> None
      | Some normalized \<Rightarrow> if normalized \<noteq> [] then Some (sha256 digest normalized) else None)"

definition hashPhone :: "subtle_digest \<Rightarrow> Options \<Rightarrow> string \<Rightarrow> string option \<Rightarrow> string option" where
  "hashPhone digest this phone countryCode =
     (case normalizePhone this phone countryCode of
        None \<Rightarrow> None
      | Some normalized \<Rightarrow> if normalized \<noteq> [] then Some (sha256 digest normalized) else None)"

definition hashName :: "subtle_digest \<Rightarrow> string \<Rightarrow> string option" where
  "hashName digest name =
     (case normalizeName name of
        None \<Rightarrow> None
      | Some normalized \<Rightarrow> if normalized \<noteq> [] then Some (sha256 digest normalized) else None)"

definition hashGender :: "subtle_digest \<Rightarrow> string \<Rightarrow> string option" where
  "hashGender digest gender =
     (case normalizeGender gender of
        None \<Rightarrow> None
      | Some normalized \<Rightarrow> if normalized \<noteq> [] then Some (sha256 digest normalized) else None)"

definition hashDateOfBirth :: "subtle_digest \<Rightarrow> string \<Rightarrow> string option" where
  "hashDateOfBirth digest dob =
     (case normalizeDateOfBirth dob of
        None \<Rightarrow> None
      | Some normalized \<Rightarrow> if normalized \<noteq> [] then Some (sha256 digest normalized) else None)"

definition hashCity :: "subtle_digest \<Rightarrow> string \<Rightarrow> string option" where
  "hashCity digest city =
     (case normalizeCity city of
        None \<Rightarrow> None
      | Some normalized \<Rightarrow> if normalized \<noteq> [] then Some (sha256 digest normalized) else None)"

definition hashState :: "subtle_digest \<Rightarrow> string \<Rightarrow> string option" where
  "hashState digest state =
     (case normalizeState state of
        None \<Rightarrow> None
      | Some normalized \<Rightarrow> if normalized \<noteq> [] then Some (sha256 digest normalized) else None)"

definition hashZipCode :: "subtle_digest \<Rightarrow> string \<Rightarrow> string option" where
  "hashZipCode digest zipcode =
     (case normalizeZipCode zipcode of
        None \<Rightarrow> None
      | Some normalized \<Rightarrow> if normalized \<noteq> [] then Some (sha256 digest normalized) else None)"

definition hashCountry :: "subtle_digest \<Rightarrow> string \<Rightarrow> string option" where
  "hashCountry digest country =
     (case normalizeCountry country of
        None \<Rightarrow> None
      | Some normalized \<Rightarrow> if normalized \<noteq> [] then Some (sha256 digest normalized) else None)"

definition hashExternalId :: "subtle_digest \<Rightarrow> string \<Rightarrow> string option" where
  "hashExternalId digest externalId =
     (if externalId = [] then None else Some (sha256 digest (trim externalId)))"

section \<open>Batch normalization\<close>

text \<open>
  \<open>RawUserData\<close> and \<open>NormalizedUserData\<close> have the same optional fields (a
  \<open>Sha256Hash\<close> is a string at run time), so one record serves for both: a
  field that is absent or \<open>undefined\<close> is \<open>None\<close>. \<open>traits\<close> holds an object
  of any shape, the type parameter.
\<close>

record 't UserData =
  email :: "string option"
  phone :: "string option"
  first_name :: "string option"
  last_name :: "string option"
  gender :: "string option"
  date_of_birth :: "string option"
  external_id :: "string option"
  city :: "string option"
  state :: "string option"
  zip_code :: "string option"
  country :: "string option"
  ip_address :: "string option"
  user_agent :: "string option"
  subscription_id :: "string option"
  lead_id :: "string option"
  anonymous_id :: "string option"
  traits :: "'t option"

type_synonym 't RawUserData = "'t UserData"
type_synonym 't NormalizedUserData = "'t UserData"

text \<open>The empty object \<open>{}\<close>.\<close>

definition empty_record :: "'t UserData" where
  "empty_record =
     \<lparr>email = None, phone = None, first_name = None, last_name = None, gender = None,
      date_of_birth = None, external_id = None, city = None, state = None, zip_code = None,
      country = None, ip_address = None, user_agent = None, subscription_id = None,
      lead_id = None, anonymous_id = None, traits = None\<rparr>"

text \<open>\<open>if (x)\<close> on an optional string: present and not empty.\<close>

definition truthy :: "string option \<Rightarrow> bool" where
  "truthy x \<longleftrightarrow> (case x of None \<Rightarrow> False | Some s \<Rightarrow> s \<noteq> [])"

definition normalize_batch :: "subtle_digest \<Rightarrow> Options \<Rightarrow> 't RawUserData \<Rightarrow> 't NormalizedUserData" where
  "normalize_batch digest this raw =
    (let result = empty_record;
       result = (if truthy (email raw) then
                   (let h = hashEmail digest (the (email raw)) in
                    if truthy h then result\<lparr>email := h\<rparr> else result)
                 else result);
       result = (if truthy (phone raw) then
                   (let h = hashPhone digest this (the (phone raw)) None in
                    if truthy h then result\<lparr>phone := h\<rparr> else result)
                 else result);
       result = (if truthy (first_name raw) then
                   (let h = hashName digest (the (first_name raw)) in
                    if truthy h then result\<lparr>first_name := h\<rparr> else result)
                 else result);
       result = (if truthy (last_name raw) then
                   (let h = hashName digest (the (last_name raw)) in
                    if truthy h then result\<lparr>last_name := h\<rparr> else result)
                 else result);
       result = (if truthy (gender raw) then
                   (let h = hashGender digest (the (gender raw)) in
                    if truthy h then result\<lparr>gender := h\<rparr> else result)
                 else result);
       result = (if truthy (date_of_birth raw) then
                   (let h = hashDateOfBirth digest (the (date_of_birth raw)) in
                    if truthy h then result\<lparr>date_of_birth := h\<rparr> else result)
                 else result);
       result = (if truthy (external_id raw) then
                   (let h = hashExternalId digest (the (external_id raw)) in
                    if truthy h then result\<lparr>external_id := h\<rparr> else result)
                 else result);
       result = (if truthy (city raw) then
                   (if hashAddressFields this then
                      (let h = hashCity digest (the (city raw)) in
                       if truthy h then result\<lparr>city := h\<rparr> else result)
                    else result\<lparr>city := city raw\<rparr>)
                 else result);
       result = (if truthy (state raw) then
                   (if hashAddressFields this then
                      (let h = hashState digest (the (state raw)) in
                       if truthy h then result\<lparr>state := h\<rparr> else result)
                    else result\<lparr>state := state raw\<rparr>)
                 else result);
       result = (if truthy (zip_code raw) then
                   (if hashAddressFields this then
                      (let h = hashZipCode digest (the (zip_code raw)) in
                       if truthy h then result\<lparr>zip_code := h\<rparr> else result)
                    else result\<lparr>zip_code := zip_code raw\<rparr>)
                 else result);
       result = (if truthy (country raw) then
                   (if hashAddressFields this then
                      (let h = hashCountry digest (the (country raw)) in
                       if truthy h then result\<lparr>country := h\<rparr> else result)
                    else result\<lparr>country := country raw\<rparr>)
                 else result);
       result = (if truthy (ip_address raw) then result\<lparr>ip_address := ip_address raw\<rparr> else result);
       result = (if truthy (user_agent raw) then result\<lparr>user_agent := user_agent raw\<rparr> else result);
       result = (if truthy (subscription_id raw) then result\<lparr>subscription_id := subscription_id raw\<rparr> else result);
       result = (if truthy (lead_id raw) then result\<lparr>lead_id := lead_id raw\<rparr> else result);
       result = (if truthy (anonymous_id raw) then result\<lparr>anonymous_id := anonymous_id raw\<rparr> else result);
       result = (if traits raw \<noteq> None then result\<lparr>traits := traits raw\<rparr> else result)
     in result)"

section \<open>Notions used in the statements and proofs\<close>

text \<open>
  The value of the variable \<open>digits\<close> of \<open>normalizePhone\<close> when its length is
  tested: the input without the characters that are neither digits nor \<open>+\<close>,
  and without one leading \<open>+\<close>.
\<close>

definition phone_digits :: "string \<Rightarrow> string" where
  "phone_digits p =
     (let digits = keep_digits_and_plus p in
      if startsWith_plus digits then slice1 digits else digits)"

text \<open>A string that neither starts nor ends with white space.\<close>

definition trimmed :: "string \<Rightarrow> bool" where
  "trimmed s \<longleftrightarrow> s = [] \<or> (\<not> isWhiteSpace (hd s) \<and> \<not> isWhiteSpace (last s))"

text \<open>
  What the batch leaves in a field it hashes, and in a field it copies:
  \<open>if (raw.x) { const h = await hash(raw.x); if (h) result.x = h; }\<close> and
  \<open>if (raw.x) result.x = raw.x\<close>, on a result that has no \<open>x\<close> yet.
\<close>

definition hashed_field :: "(string \<Rightarrow> string option) \<Rightarrow> string option \<Rightarrow> string option" where
  "hashed_field hashf x =
     (if truthy x then (let h = hashf (the x) in if truthy h then h else None) else None)"

definition copied_field :: "string option \<Rightarrow> string option" where
  "copied_field x = (if truthy x then x else None)"

section \<open>Lower case and trimming\<close>

lemma code_unit_char_of: "n < 256 \<Longrightarrow> code_unit (char_of n) = n"
  by (simp add: code_unit_def)

lemma hasLowerCase_lower: "\<not> hasLowerCase (toLowerCase_char c)"
  by (auto simp: toLowerCase_char_def hasLowerCase_def Let_def code_unit_char_of)

lemma toLowerCase_char_idem: "toLowerCase_char (toLowerCase_char c) = toLowerCase_char c"
  using hasLowerCase_lower [of c] by (simp add: toLowerCase_char_def)

lemma isWhiteSpace_lower: "isWhiteSpace (toLowerCase_char c) = isWhiteSpace c"
  by (auto simp: toLowerCase_char_def hasLowerCase_def isWhiteSpace_def Let_def code_unit_char_of)

lemma toLowerCase_idem: "toLowerCase (toLowerCase s) = toLowerCase s"
  by (simp add: toLowerCase_def toLowerCase_char_idem)

lemma dropWhile_ws_lower:
  "dropWhile isWhiteSpace (map toLowerCase_char s) = map toLowerCase_char (dropWhile isWhiteSpace s)"
  by (induction s) (simp_all add: isWhiteSpace_lower)

lemma toLowerCase_trim: "toLowerCase (trim s) = trim (toLowerCase s)"
  by (simp add: toLowerCase_def trim_def rev_map dropWhile_ws_lower)

lemma rev_dropWhile_rev_prefix:
  "rev (dropWhile P (rev t)) @ rev (takeWhile P (rev t)) = t"
proof -
  have "rev (takeWhile P (rev t) @ dropWhile P (rev t)) = t" by simp
  then show ?thesis by (simp only: rev_append)
qed

lemma hd_rev_dropWhile_rev:
  assumes "rev (dropWhile P (rev t)) \<noteq> []"
  shows "hd (rev (dropWhile P (rev t))) = hd t"
proof -
  have "hd (rev (dropWhile P (rev t)) @ rev (takeWhile P (rev t))) = hd (rev (dropWhile P (rev t)))"
    using assms by (rule hd_append2)
  then show ?thesis by (simp only: rev_dropWhile_rev_prefix)
qed

lemma trimmed_trim: "trimmed (trim s)"
proof (cases "trim s = []")
  case True
  then show ?thesis by (simp add: trimmed_def)
next
  case False
  let ?t = "dropWhile isWhiteSpace s"
  from False have ne: "rev (dropWhile isWhiteSpace (rev ?t)) \<noteq> []"
    by (simp add: trim_def)
  then have "?t \<noteq> []" by (cases "dropWhile isWhiteSpace s") simp_all
  then have "\<not> isWhiteSpace (hd ?t)" by (rule hd_dropWhile)
  with hd_rev_dropWhile_rev [OF ne] have h: "\<not> isWhiteSpace (hd (trim s))"
    by (simp add: trim_def)
  from ne have "dropWhile isWhiteSpace (rev ?t) \<noteq> []" by simp
  then have "\<not> isWhiteSpace (hd (dropWhile isWhiteSpace (rev ?t)))" by (rule hd_dropWhile)
  then have l: "\<not> isWhiteSpace (last (trim s))"
    using ne by (simp add: trim_def last_rev)
  from h l show ?thesis by (simp add: trimmed_def)
qed

lemma trim_trimmed: "trimmed s \<Longrightarrow> trim s = s"
proof (cases "s = []")
  case True
  then show ?thesis by (simp add: trim_def)
next
  case False
  assume "trimmed s"
  with False have h: "\<not> isWhiteSpace (hd s)" and l: "\<not> isWhiteSpace (last s)"
    by (simp_all add: trimmed_def)
  from False h have 1: "dropWhile isWhiteSpace s = s"
    by (cases s) simp_all
  from False l have 2: "dropWhile isWhiteSpace (rev s) = rev s"
    by (cases "rev s") (simp_all add: last_rev [symmetric] del: last_rev, (metis hd_rev list.sel(1))?)
  show ?thesis by (simp add: trim_def 1 2)
qed

lemma trim_idem: "trim (trim s) = trim s"
  by (rule trim_trimmed) (rule trimmed_trim)

lemma lower_trim_fix: "trim (toLowerCase (trim (toLowerCase s))) = trim (toLowerCase s)"
  by (simp add: toLowerCase_trim toLowerCase_idem trim_idem)

section \<open>White space runs, filters and the hexadecimal rendering\<close>

lemma lower_space: "toLowerCase_char CHR '' '' = CHR '' ''"
  by (simp add: toLowerCase_char_def hasLowerCase_def code_unit_def)

lemma space_ws: "isWhiteSpace CHR '' ''"
  by (simp add: isWhiteSpace_def code_unit_def)

lemma collapse_lower:
  "map toLowerCase_char (replace_ws_runs_by_space s) = replace_ws_runs_by_space (map toLowerCase_char s)"
  by (induction s rule: replace_ws_runs_by_space.induct)
     (simp_all add: isWhiteSpace_lower lower_space dropWhile_ws_lower)

lemma collapse_Nil_iff: "replace_ws_runs_by_space s = [] \<longleftrightarrow> s = []"
  by (cases s) simp_all

lemma hd_collapse: "s \<noteq> [] \<Longrightarrow> \<not> isWhiteSpace (hd s) \<Longrightarrow> hd (replace_ws_runs_by_space s) = hd s"
  by (cases s) simp_all

lemma last_dropWhile: "\<not> P (last xs) \<Longrightarrow> xs \<noteq> [] \<Longrightarrow> dropWhile P xs \<noteq> [] \<and> last (dropWhile P xs) = last xs"
  by (induction xs) (auto split: if_splits)

lemma last_collapse:
  "s \<noteq> [] \<Longrightarrow> \<not> isWhiteSpace (last s) \<Longrightarrow> last (replace_ws_runs_by_space s) = last s"
proof (induction s rule: replace_ws_runs_by_space.induct)
  case 1
  then show ?case by simp
next
  case (2 c cs)
  show ?case
  proof (cases "isWhiteSpace c")
    case True
    with "2.prems" have cs: "cs \<noteq> []" and l: "\<not> isWhiteSpace (last cs)" by (auto split: if_splits)
    from last_dropWhile [of isWhiteSpace cs, OF l cs]
    have d: "dropWhile isWhiteSpace cs \<noteq> []" and ld: "last (dropWhile isWhiteSpace cs) = last cs"
      by simp_all
    from "2.IH"(1) [OF True d] l ld
    have "last (replace_ws_runs_by_space (dropWhile isWhiteSpace cs)) = last cs" by simp
    with True cs d show ?thesis by (auto simp: collapse_Nil_iff)
  next
    case False
    show ?thesis
    proof (cases "cs = []")
      case True
      with False show ?thesis by simp
    next
      case ne: False
      with "2.prems" have "\<not> isWhiteSpace (last cs)" by simp
      from "2.IH"(2) [OF False ne this] False ne show ?thesis by (simp add: collapse_Nil_iff)
    qed
  qed
qed

lemma trimmed_collapse: "trimmed s \<Longrightarrow> trimmed (replace_ws_runs_by_space s)"
  by (auto simp: trimmed_def collapse_Nil_iff hd_collapse last_collapse)

lemma dropWhile_collapse:
  "s = [] \<or> \<not> isWhiteSpace (hd s) \<Longrightarrow>
     dropWhile isWhiteSpace (replace_ws_runs_by_space s) = replace_ws_runs_by_space s"
  by (cases s) auto

lemma collapse_idem:
  "replace_ws_runs_by_space (replace_ws_runs_by_space s) = replace_ws_runs_by_space s"
proof (induction s rule: replace_ws_runs_by_space.induct)
  case 1
  then show ?case by simp
next
  case (2 c cs)
  show ?case
  proof (cases "isWhiteSpace c")
    case True
    have "dropWhile isWhiteSpace cs = [] \<or> \<not> isWhiteSpace (hd (dropWhile isWhiteSpace cs))"
      using hd_dropWhile [of isWhiteSpace cs] by blast
    then have "dropWhile isWhiteSpace (replace_ws_runs_by_space (dropWhile isWhiteSpace cs))
                 = replace_ws_runs_by_space (dropWhile isWhiteSpace cs)"
      by (rule dropWhile_collapse)
    with True "2.IH"(1) show ?thesis by (simp add: space_ws)
  next
    case False
    with "2.IH"(2) show ?thesis by simp
  qed
qed

lemma remove_ws_lower: "map toLowerCase_char (remove_ws s) = remove_ws (map toLowerCase_char s)"
  by (simp add: remove_ws_def filter_map o_def isWhiteSpace_lower)

lemma trimmed_no_ws: "\<forall>c\<in>set s. \<not> isWhiteSpace c \<Longrightarrow> trimmed s"
  unfolding trimmed_def using hd_in_set [of s] last_in_set [of s] by blast

lemma trimmed_remove_ws: "trimmed (remove_ws s)"
  by (rule trimmed_no_ws) (simp add: remove_ws_def)

lemma remove_ws_idem: "remove_ws (remove_ws s) = remove_ws s"
  by (simp add: remove_ws_def)

lemma digit_not_separator:
  "isDigit c \<Longrightarrow> c \<noteq> CHR ''-'' \<and> c \<noteq> CHR ''/'' \<and> c \<noteq> CHR ''.''"
  by (auto simp: isDigit_def code_unit_def)

lemma remove_date_separators_digits:
  "list_all isDigit s \<Longrightarrow> remove_date_separators s = s"
  unfolding remove_date_separators_def
  by (rule filter_True) (auto simp: list_all_iff dest: digit_not_separator)

lemma keep_idem: "keep_digits_and_plus (keep_digits_and_plus s) = keep_digits_and_plus s"
  by (simp add: keep_digits_and_plus_def)

lemma keep_append: "keep_digits_and_plus (s @ t) = keep_digits_and_plus s @ keep_digits_and_plus t"
  by (simp add: keep_digits_and_plus_def)

lemma keep_drop: "keep_digits_and_plus s = s \<Longrightarrow> keep_digits_and_plus (drop n s) = drop n s"
  unfolding keep_digits_and_plus_def
  by (metis filter_True filter_id_conv in_set_dropD)

lemma hex_digit_lower: "d < 16 \<Longrightarrow> isLowerHex (hex_digit d)"
  by (auto simp: hex_digit_def isLowerHex_def code_unit_def eval_nat_numeral less_Suc_eq)

lemma zero_lower: "isLowerHex CHR ''0''"
  by (simp add: isLowerHex_def code_unit_def)

lemma byte_hex_shape:
  "length (padStart2 (toString16 b)) = 2 \<and> list_all isLowerHex (padStart2 (toString16 b))"
proof -
  have "unat b < 2 ^ LENGTH(8)" by (rule unsigned_less)
  then have "unat b < 256" by simp
  then have "unat b div 16 < 16" by simp
  then show ?thesis
    by (simp add: padStart2_def toString16_def Let_def hex_digit_lower zero_lower)
qed

lemma concat_shape:
  "(\<And>b. length (f b) = 2 \<and> list_all P (f b)) \<Longrightarrow>
     length (concat (map f bs)) = 2 * length bs \<and> list_all P (concat (map f bs))"
  by (induction bs) simp_all

lemma sha256_shape:
  "length (digest (TextEncoder_encode x)) = 32 \<Longrightarrow>
     length (sha256 digest x) = 64 \<and> list_all isLowerHex (sha256 digest x)"
  using concat_shape [of "\<lambda>b. padStart2 (toString16 b)" isLowerHex "digest (TextEncoder_encode x)"]
  by (simp add: sha256_def byte_hex_shape)

section \<open>Every normalizer on its own output\<close>

lemma normalizeEmail_idem: "normalizeEmail x = Some y \<Longrightarrow> normalizeEmail y = Some y"
  by (auto simp: normalizeEmail_def Let_def lower_trim_fix split: if_splits)

lemma normalizeCity_idem: "normalizeCity x = Some y \<Longrightarrow> normalizeCity y = Some y"
  by (auto simp: normalizeCity_def Let_def lower_trim_fix split: if_splits)

lemma normalizeState_idem: "normalizeState x = Some y \<Longrightarrow> normalizeState y = Some y"
  by (auto simp: normalizeState_def Let_def lower_trim_fix split: if_splits)

lemma normalizeCountry_idem: "normalizeCountry x = Some y \<Longrightarrow> normalizeCountry y = Some y"
  by (auto simp: normalizeCountry_def Let_def lower_trim_fix split: if_splits)

lemma name_fix:
  "replace_ws_runs_by_space (trim (toLowerCase (replace_ws_runs_by_space (trim (toLowerCase x)))))
     = replace_ws_runs_by_space (trim (toLowerCase x))"
proof -
  let ?n = "replace_ws_runs_by_space (trim (toLowerCase x))"
  have "toLowerCase ?n = replace_ws_runs_by_space (toLowerCase (trim (toLowerCase x)))"
    using collapse_lower [of "trim (toLowerCase x)"] by (simp add: toLowerCase_def)
  then have l: "toLowerCase ?n = ?n"
    by (simp add: toLowerCase_trim toLowerCase_idem)
  have "trimmed ?n" by (rule trimmed_collapse) (rule trimmed_trim)
  then have t: "trim ?n = ?n" by (rule trim_trimmed)
  show ?thesis by (simp add: l t collapse_idem)
qed

lemma normalizeName_idem: "normalizeName x = Some y \<Longrightarrow> normalizeName y = Some y"
  by (auto simp: normalizeName_def Let_def name_fix split: if_splits)

lemma zip_fix:
  "remove_ws (trim (toLowerCase (remove_ws (trim (toLowerCase x)))))
     = remove_ws (trim (toLowerCase x))"
proof -
  let ?n = "remove_ws (trim (toLowerCase x))"
  have "toLowerCase ?n = remove_ws (toLowerCase (trim (toLowerCase x)))"
    using remove_ws_lower [of "trim (toLowerCase x)"] by (simp add: toLowerCase_def)
  then have l: "toLowerCase ?n = ?n"
    by (simp add: toLowerCase_trim toLowerCase_idem)
  have t: "trim ?n = ?n" by (rule trim_trimmed) (rule trimmed_remove_ws)
  show ?thesis by (simp add: l t remove_ws_idem)
qed

lemma normalizeZipCode_idem: "normalizeZipCode x = Some y \<Longrightarrow> normalizeZipCode y = Some y"
  by (auto simp: normalizeZipCode_def Let_def zip_fix split: if_splits)

lemma normalizeGender_m: "normalizeGender ''m'' = Some ''m''"
  by code_simp

lemma normalizeGender_f: "normalizeGender ''f'' = Some ''f''"
  by code_simp

lemma normalizeGender_idem: "normalizeGender x = Some y \<Longrightarrow> normalizeGender y = Some y"
  using normalizeGender_m normalizeGender_f
  by (auto simp: normalizeGender_def Let_def split: if_splits)

lemma normalizeDateOfBirth_idem:
  "normalizeDateOfBirth x = Some y \<Longrightarrow> normalizeDateOfBirth y = Some y"
  by (auto simp: normalizeDateOfBirth_def Let_def test_eight_digits_def
        remove_date_separators_digits split: if_splits)

lemma normalizePhone_digits:
  "normalizePhone this p countryCode =
     (if p = [] \<or> length (phone_digits p) < 10 then None
      else if length (phone_digits p) = 10
        then Some (''+'' @ (case countryCode of None \<Rightarrow> defaultCountryCode this | Some c \<Rightarrow> c) @ phone_digits p)
        else Some (''+'' @ phone_digits p))"
  by (simp add: normalizePhone_def phone_digits_def Let_def)

lemma keep_phone_digits: "keep_digits_and_plus (phone_digits x) = phone_digits x"
  by (simp add: phone_digits_def Let_def slice1_def keep_idem keep_drop)

lemma phone_digits_plus:
  "keep_digits_and_plus e = e \<Longrightarrow> phone_digits (''+'' @ e) = e"
  by (simp add: phone_digits_def Let_def keep_digits_and_plus_def startsWith_plus_def slice1_def)

lemma normalizePhone_idem:
  assumes "normalizePhone this x cc = Some y"
    and "keep_digits_and_plus (case cc of None \<Rightarrow> defaultCountryCode this | Some c \<Rightarrow> c)
           = (case cc of None \<Rightarrow> defaultCountryCode this | Some c \<Rightarrow> c)"
  shows "normalizePhone this y cc = Some y"
proof -
  let ?code = "case cc of None \<Rightarrow> defaultCountryCode this | Some c \<Rightarrow> c"
  let ?d = "phone_digits x"
  let ?e = "if length ?d = 10 then ?code @ ?d else ?d"
  from assms(1) have len: "10 \<le> length ?d" and y: "y = ''+'' @ ?e"
    by (auto simp: normalizePhone_digits split: if_splits)
  have "keep_digits_and_plus ?e = ?e"
    using assms(2) by (simp add: keep_append keep_phone_digits)
  then have pd: "phone_digits y = ?e" unfolding y by (rule phone_digits_plus)
  show ?thesis
    using len by (simp add: normalizePhone_digits [of this y] pd) (simp add: y)
qed

section \<open>The fields of the batch result\<close>

lemma cond_update:
  "\<And>c v (r::'t UserData). (if c then r\<lparr>email := v\<rparr> else r) = r\<lparr>email := if c then v else email r\<rparr>"
  "\<And>c v (r::'t UserData). (if c then r\<lparr>phone := v\<rparr> else r) = r\<lparr>phone := if c then v else phone r\<rparr>"
  "\<And>c v (r::'t UserData). (if c then r\<lparr>first_name := v\<rparr> else r) = r\<lparr>first_name := if c then v else first_name r\<rparr>"
  "\<And>c v (r::'t UserData). (if c then r\<lparr>last_name := v\<rparr> else r) = r\<lparr>last_name := if c then v else last_name r\<rparr>"
  "\<And>c v (r::'t UserData). (if c then r\<lparr>gender := v\<rparr> else r) = r\<lparr>gender := if c then v else gender r\<rparr>"
  "\<And>c v (r::'t UserData). (if c then r\<lparr>date_of_birth := v\<rparr> else r) = r\<lparr>date_of_birth := if c then v else date_of_birth r\<rparr>"
  "\<And>c v (r::'t UserData). (if c then r\<lparr>external_id := v\<rparr> else r) = r\<lparr>external_id := if c then v else external_id r\<rparr>"
  "\<And>c v (r::'t UserData). (if c then r\<lparr>city := v\<rparr> else r) = r\<lparr>city := if c then v else city r\<rparr>"
  "\<And>c v (r::'t UserData). (if c then r\<lparr>state := v\<rparr> else r) = r\<lparr>state := if c then v else state r\<rparr>"
  "\<And>c v (r::'t UserData). (if c then r\<lparr>zip_code := v\<rparr> else r) = r\<lparr>zip_code := if c then v else zip_code r\<rparr>"
  "\<And>c v (r::'t UserData). (if c then r\<lparr>country := v\<rparr> else r) = r\<lparr>country := if c then v else country r\<rparr>"
  "\<And>c v (r::'t UserData). (if c then r\<lparr>ip_address := v\<rparr> else r) = r\<lparr>ip_address := if c then v else ip_address r\<rparr>"
  "\<And>c v (r::'t UserData). (if c then r\<lparr>user_agent := v\<rparr> else r) = r\<lparr>user_agent := if c then v else user_agent r\<rparr>"
  "\<And>c v (r::'t UserData). (if c then r\<lparr>subscription_id := v\<rparr> else r) = r\<lparr>subscription_id := if c then v else subscription_id r\<rparr>"
  "\<And>c v (r::'t UserData). (if c then r\<lparr>lead_id := v\<rparr> else r) = r\<lparr>lead_id := if c then v else lead_id r\<rparr>"
  "\<And>c v (r::'t UserData). (if c then r\<lparr>anonymous_id := v\<rparr> else r) = r\<lparr>anonymous_id := if c then v else anonymous_id r\<rparr>"
  "\<And>c v (r::'t UserData). (if c then r\<lparr>traits := v\<rparr> else r) = r\<lparr>traits := if c then v else traits r\<rparr>"
  by simp_all

lemma cond_update2:
  "\<And>c v w (r::'t UserData). (if c then r\<lparr>city := v\<rparr> else r\<lparr>city := w\<rparr>) = r\<lparr>city := if c then v else w\<rparr>"
  "\<And>c v w (r::'t UserData). (if c then r\<lparr>state := v\<rparr> else r\<lparr>state := w\<rparr>) = r\<lparr>state := if c then v else w\<rparr>"
  "\<And>c v w (r::'t UserData). (if c then r\<lparr>zip_code := v\<rparr> else r\<lparr>zip_code := w\<rparr>) = r\<lparr>zip_code := if c then v else w\<rparr>"
  "\<And>c v w (r::'t UserData). (if c then r\<lparr>country := v\<rparr> else r\<lparr>country := w\<rparr>) = r\<lparr>country := if c then v else w\<rparr>"
  by simp_all

lemma normalize_batch_fields:
  "normalize_batch digest this raw =
     \<lparr>email = hashed_field (hashEmail digest) (email raw),
      phone = hashed_field (\<lambda>p. hashPhone digest this p None) (phone raw),
      first_name = hashed_field (hashName digest) (first_name raw),
      last_name = hashed_field (hashName digest) (last_name raw),
      gender = hashed_field (hashGender digest) (gender raw),
      date_of_birth = hashed_field (hashDateOfBirth digest) (date_of_birth raw),
      external_id = hashed_field (hashExternalId digest) (external_id raw),
      city = (if hashAddressFields this then hashed_field (hashCity digest) (city raw) else copied_field (city raw)),
      state = (if hashAddressFields this then hashed_field (hashState digest) (state raw) else copied_field (state raw)),
      zip_code = (if hashAddressFields this then hashed_field (hashZipCode digest) (zip_code raw) else copied_field (zip_code raw)),
      country = (if hashAddressFields this then hashed_field (hashCountry digest) (country raw) else copied_field (country raw)),
      ip_address = copied_field (ip_address raw),
      user_agent = copied_field (user_agent raw),
      subscription_id = copied_field (subscription_id raw),
      lead_id = copied_field (lead_id raw),
      anonymous_id = copied_field (anonymous_id raw),
      traits = traits raw\<rparr>"
  by (simp add: normalize_batch_def Let_def empty_record_def cond_update cond_update2
        hashed_field_def copied_field_def cong: if_cong)

section \<open>Digests are never empty, empty inputs are rejected\<close>

lemma sha256_not_empty: "digest32 digest \<Longrightarrow> sha256 digest x \<noteq> []"
  using sha256_shape [of digest x] by (auto simp: digest32_def)

lemma normalizePhone_Nil: "normalizePhone this [] cc = None"
  by (simp add: normalizePhone_def)

lemma normalizeName_Nil: "normalizeName [] = None"
  by (simp add: normalizeName_def)

lemma normalizeName_not_empty: "normalizeName v \<noteq> Some []"
  by (simp add: normalizeName_def Let_def)

section \<open>The claims\<close>

subsection \<open>C1: address fields when address hashing is off\<close>

text \<open>
  C1 says that, with \<open>hashAddressFields\<close> false, the batch runs the bare
  normalizer on each address field, stores the normalized string and omits a
  rejected field. The code does neither: the \<open>else\<close> branches assign
  \<open>raw.city\<close>, \<open>raw.state\<close>, \<open>raw.zip_code\<close> and \<open>raw.country\<close> as they
  are. With the default options the city \<open>San Francisco\<close> stays in upper and
  lower case although \<open>normalizeCity\<close> gives \<open>san francisco\<close>, and the
  country \<open>USA\<close> is kept although \<open>normalizeCountry\<close> rejects it.
\<close>

theorem address_fields_copied_unnormalized:
  "city (normalize_batch digest (Normalizer no_options) (empty_record\<lparr>city := Some ''San Francisco''\<rparr>))
     = Some ''San Francisco'' \<and>
   normalizeCity ''San Francisco'' = Some ''san francisco'' \<and>
   country (normalize_batch digest (Normalizer no_options) (empty_record\<lparr>country := Some ''USA''\<rparr>))
     = Some ''USA'' \<and>
   normalizeCountry ''USA'' = None"
proof -
  have n: "normalizeCity ''San Francisco'' = Some ''san francisco''" by code_simp
  have r: "normalizeCountry ''USA'' = None" by code_simp
  show ?thesis
    by (simp add: n r normalize_batch_fields copied_field_def truthy_def Normalizer_def
          no_options_def empty_record_def)
qed

subsection \<open>C2: phone numbers\<close>

text \<open>
  C2 says that \<open>normalizePhone\<close> keeps only digits and a leading \<open>+\<close>,
  rejects fewer than ten digits and returns one leading \<open>+\<close>. The character
  class \<open>[^\d+]\<close> keeps every \<open>+\<close>, and \<open>length\<close> counts them: with the
  default options \<open>555+1234567\<close> keeps its inner \<open>+\<close>, \<open>555+123456\<close> has
  nine digits and is accepted, and \<open>++5551234567\<close> comes back with two
  leading \<open>+\<close>.
\<close>

theorem normalizePhone_keeps_inner_plus:
  "normalizePhone (Normalizer no_options) ''555+1234567'' None = Some ''+555+1234567'' \<and>
   normalizePhone (Normalizer no_options) ''555+123456'' None = Some ''+1555+123456'' \<and>
   normalizePhone (Normalizer no_options) ''++5551234567'' None = Some ''++5551234567''"
  by code_simp

subsection \<open>C3: rejected fields in the batch result\<close>

text \<open>
  C3 says that a field whose normalization is rejected is omitted from the
  result of the batch. With the default options the address fields are
  copied without being normalized (the defect of C1), so a rejected address
  field stays: \<open>normalizeCity\<close>, \<open>normalizeState\<close> and \<open>normalizeZipCode\<close>
  reject a single space and \<open>normalizeCountry\<close> rejects \<open>USA\<close>, yet the
  batch returns the record that holds these four values as it received it.
  The hashing branch of the same fields does omit them: with
  \<open>hashAddressFields\<close> set, the same input gives the empty record.
\<close>

theorem rejected_address_fields_kept:
  "normalizeCity '' '' = None \<and> normalizeState '' '' = None \<and>
   normalizeZipCode '' '' = None \<and> normalizeCountry ''USA'' = None \<and>
   normalize_batch digest (Normalizer no_options)
       (empty_record\<lparr>city := Some '' '', state := Some '' '', zip_code := Some '' '',
          country := Some ''USA''\<rparr>)
     = empty_record\<lparr>city := Some '' '', state := Some '' '', zip_code := Some '' '',
          country := Some ''USA''\<rparr> \<and>
   normalize_batch digest
       (Normalizer \<lparr>opt_defaultCountryCode = None, opt_hashAddressFields = Some True\<rparr>)
       (empty_record\<lparr>city := Some '' '', state := Some '' '', zip_code := Some '' '',
          country := Some ''USA''\<rparr>)
     = empty_record"
proof -
  have c: "normalizeCity '' '' = None" by code_simp
  have s: "normalizeState '' '' = None" by code_simp
  have z: "normalizeZipCode '' '' = None" by code_simp
  have u: "normalizeCountry ''USA'' = None" by code_simp
  show ?thesis
    by (simp add: c s z u normalize_batch_fields hashed_field_def copied_field_def truthy_def
          hashCity_def hashState_def hashZipCode_def hashCountry_def Normalizer_def
          no_options_def empty_record_def)
qed

subsection \<open>C4: the shape of a digest\<close>

text \<open>
  C4: for every string \<open>x\<close>, \<open>sha256 x\<close> has exactly 64 characters, each a
  lower-case hexadecimal digit, so \<open>isSha256\<close> accepts it. The platform's
  SHA-256 enters as a digest function that returns 32 bytes.
\<close>

theorem sha256_is_digest:
  "digest32 digest \<Longrightarrow>
     length (sha256 digest x) = 64 \<and> list_all isLowerHex (sha256 digest x) \<and> isSha256 (sha256 digest x)"
  using sha256_shape [of digest x] by (simp add: digest32_def isSha256_def)

text \<open>C4 at the string \<open>hello@example.com\<close>, for a digest of 32 zero bytes.\<close>

theorem sha256_is_digest_witness:
  "isSha256 (sha256 (\<lambda>data. replicate 32 0) ''hello@example.com'')"
  using sha256_is_digest [of "\<lambda>data. replicate 32 0" "''hello@example.com''"]
  by (simp add: digest32_def)

subsection \<open>C5: normalizing a normalized value\<close>

text \<open>
  C5 says that every normalizer returns its own output unchanged, the phone
  normalizer with the same country code. That fails for a country code with a
  character that the phone normalizer strips: with the code \<open>1-\<close> the number
  \<open>5551234567\<close> becomes \<open>+1-5551234567\<close>, and that becomes
  \<open>+15551234567\<close>.
\<close>

theorem normalizePhone_not_idempotent:
  "normalizePhone (Normalizer no_options) ''5551234567'' (Some ''1-'') = Some ''+1-5551234567'' \<and>
   normalizePhone (Normalizer no_options) ''+1-5551234567'' (Some ''1-'') \<noteq> Some ''+1-5551234567''"
  by code_simp

text \<open>
  C5 as amended: every normalizer returns its own output unchanged; for the
  phone normalizer this holds when the country code in force (the argument,
  or else the configured default) consists of digits and \<open>+\<close> only.
\<close>

theorem normalizers_idempotent:
  "(normalizeEmail x1 = Some y1 \<longrightarrow> normalizeEmail y1 = Some y1) \<and>
   (normalizePhone this x2 cc = Some y2 \<and>
      keep_digits_and_plus (case cc of None \<Rightarrow> defaultCountryCode this | Some c \<Rightarrow> c)
        = (case cc of None \<Rightarrow> defaultCountryCode this | Some c \<Rightarrow> c)
      \<longrightarrow> normalizePhone this y2 cc = Some y2) \<and>
   (normalizeName x3 = Some y3 \<longrightarrow> normalizeName y3 = Some y3) \<and>
   (normalizeGender x4 = Some y4 \<longrightarrow> normalizeGender y4 = Some y4) \<and>
   (normalizeDateOfBirth x5 = Some y5 \<longrightarrow> normalizeDateOfBirth y5 = Some y5) \<and>
   (normalizeCity x6 = Some y6 \<longrightarrow> normalizeCity y6 = Some y6) \<and>
   (normalizeState x7 = Some y7 \<longrightarrow> normalizeState y7 = Some y7) \<and>
   (normalizeZipCode x8 = Some y8 \<longrightarrow> normalizeZipCode y8 = Some y8) \<and>
   (normalizeCountry x9 = Some y9 \<longrightarrow> normalizeCountry y9 = Some y9)"
  using normalizeEmail_idem normalizePhone_idem normalizeName_idem normalizeGender_idem
    normalizeDateOfBirth_idem normalizeCity_idem normalizeState_idem normalizeZipCode_idem
    normalizeCountry_idem
  by blast

text \<open>C5 as amended, at one input for each of the nine normalizers.\<close>

theorem normalizers_idempotent_witness:
  "normalizeEmail ''john@example.com'' = Some ''john@example.com'' \<and>
   normalizePhone (Normalizer no_options) ''+15551234567'' None = Some ''+15551234567'' \<and>
   normalizeName ''john doe'' = Some ''john doe'' \<and>
   normalizeGender ''m'' = Some ''m'' \<and>
   normalizeDateOfBirth ''19900115'' = Some ''19900115'' \<and>
   normalizeCity ''san francisco'' = Some ''san francisco'' \<and>
   normalizeState ''ca'' = Some ''ca'' \<and>
   normalizeZipCode ''sw1a1aa'' = Some ''sw1a1aa'' \<and>
   normalizeCountry ''gb'' = Some ''gb''"
proof -
  have 1: "normalizeEmail '' JOHN@Example.com'' = Some ''john@example.com''" by code_simp
  have 2: "normalizePhone (Normalizer no_options) ''(555) 123-4567'' None = Some ''+15551234567''"
    by code_simp
  have c: "keep_digits_and_plus (case None of None \<Rightarrow> defaultCountryCode (Normalizer no_options) | Some c \<Rightarrow> c)
             = (case None of None \<Rightarrow> defaultCountryCode (Normalizer no_options) | Some c \<Rightarrow> c)"
    by code_simp
  have 3: "normalizeName ''  John   DOE '' = Some ''john doe''" by code_simp
  have 4: "normalizeGender ''Male'' = Some ''m''" by code_simp
  have 5: "normalizeDateOfBirth ''1990-01-15'' = Some ''19900115''" by code_simp
  have 6: "normalizeCity ''San Francisco'' = Some ''san francisco''" by code_simp
  have 7: "normalizeState '' CA '' = Some ''ca''" by code_simp
  have 8: "normalizeZipCode ''SW1A 1AA'' = Some ''sw1a1aa''" by code_simp
  have 9: "normalizeCountry '' GB '' = Some ''gb''" by code_simp
  from normalizers_idempotent [where ?x1.0 = "'' JOHN@Example.com''" and ?y1.0 = "''john@example.com''"
      and this = "Normalizer no_options" and ?x2.0 = "''(555) 123-4567''" and cc = None
      and ?y2.0 = "''+15551234567''"
      and ?x3.0 = "''  John   DOE ''" and ?y3.0 = "''john doe''"
      and ?x4.0 = "''Male''" and ?y4.0 = "''m''"
      and ?x5.0 = "''1990-01-15''" and ?y5.0 = "''19900115''"
      and ?x6.0 = "''San Francisco''" and ?y6.0 = "''san francisco''"
      and ?x7.0 = "'' CA ''" and ?y7.0 = "''ca''"
      and ?x8.0 = "''SW1A 1AA''" and ?y8.0 = "''sw1a1aa''"
      and ?x9.0 = "'' GB ''" and ?y9.0 = "''gb''"]
    1 2 c 3 4 5 6 7 8 9
  show ?thesis by blast
qed

subsection \<open>C6: the external id is only trimmed\<close>

text \<open>
  C6: for every non-empty string \<open>s\<close>, \<open>hashExternalId s\<close> is the digest of
  \<open>s\<close> without its leading and trailing white space: no lower case, no
  format check.
\<close>

theorem hashExternalId_trims_only:
  "s \<noteq> [] \<Longrightarrow> hashExternalId digest s = Some (sha256 digest (trim s))"
  by (simp add: hashExternalId_def)

text \<open>C6 at an id with capitals and surrounding spaces: the capitals are digested.\<close>

theorem hashExternalId_trims_only_witness:
  "hashExternalId (\<lambda>data. replicate 32 0) '' Ext_12345 ''
     = Some (sha256 (\<lambda>data. replicate 32 0) ''Ext_12345'')"
proof -
  have "trim '' Ext_12345 '' = ''Ext_12345''" by code_simp
  with hashExternalId_trims_only [of "'' Ext_12345 ''" "\<lambda>data. replicate 32 0"]
  show ?thesis by simp
qed

subsection \<open>C7: the date of birth is checked for its format only\<close>

text \<open>
  C7: \<open>normalizeDateOfBirth\<close> removes hyphens, slashes and periods and
  returns what is left exactly when that is eight decimal digits, whatever
  date they spell and in whatever order; \<open>1990-01-15\<close> gives \<open>19900115\<close>
  and \<open>01/15/1990\<close> gives \<open>01151990\<close>.
\<close>

theorem normalizeDateOfBirth_format_only:
  "(normalizeDateOfBirth dob = Some r \<longleftrightarrow>
      r = remove_date_separators dob \<and> length r = 8 \<and> list_all isDigit r) \<and>
   (normalizeDateOfBirth dob = None \<longleftrightarrow>
      \<not> (length (remove_date_separators dob) = 8 \<and> list_all isDigit (remove_date_separators dob))) \<and>
   normalizeDateOfBirth ''1990-01-15'' = Some ''19900115'' \<and>
   normalizeDateOfBirth ''01/15/1990'' = Some ''01151990''"
proof -
  have e: "remove_date_separators [] = []" by (simp add: remove_date_separators_def)
  have accepted: "normalizeDateOfBirth dob = Some r \<longleftrightarrow>
      r = remove_date_separators dob \<and> length r = 8 \<and> list_all isDigit r"
    by (auto simp: e normalizeDateOfBirth_def Let_def test_eight_digits_def)
  have rejected: "normalizeDateOfBirth dob = None \<longleftrightarrow>
      \<not> (length (remove_date_separators dob) = 8 \<and> list_all isDigit (remove_date_separators dob))"
    by (auto simp: e normalizeDateOfBirth_def Let_def test_eight_digits_def)
  have iso: "normalizeDateOfBirth ''1990-01-15'' = Some ''19900115''" by code_simp
  have us: "normalizeDateOfBirth ''01/15/1990'' = Some ''01151990''" by code_simp
  from accepted rejected iso us show ?thesis by (intro conjI)
qed

subsection \<open>C8: first and last name share one digest\<close>

text \<open>
  C8: when the first and the last name of a record are the same string, and
  name normalization accepts it, both fields of the result hold the same
  digest, that of the normalized name alone (no field name enters it).
\<close>

theorem first_and_last_name_same_digest:
  "digest32 digest \<Longrightarrow> normalizeName v = Some n \<Longrightarrow>
   first_name raw = Some v \<Longrightarrow> last_name raw = Some v \<Longrightarrow>
     first_name (normalize_batch digest this raw) = Some (sha256 digest n) \<and>
     last_name (normalize_batch digest this raw) = Some (sha256 digest n)"
  by (auto simp: normalize_batch_fields hashed_field_def truthy_def hashName_def Let_def
        sha256_not_empty normalizeName_Nil normalizeName_not_empty)

text \<open>C8 at the name \<open>Jordan\<close>.\<close>

theorem first_and_last_name_same_digest_witness:
  "first_name (normalize_batch (\<lambda>data. replicate 32 0) (Normalizer no_options)
      ((empty_record :: unit UserData)\<lparr>first_name := Some ''Jordan'', last_name := Some ''Jordan''\<rparr>))
     = Some (sha256 (\<lambda>data. replicate 32 0) ''jordan'') \<and>
   last_name (normalize_batch (\<lambda>data. replicate 32 0) (Normalizer no_options)
      ((empty_record :: unit UserData)\<lparr>first_name := Some ''Jordan'', last_name := Some ''Jordan''\<rparr>))
     = Some (sha256 (\<lambda>data. replicate 32 0) ''jordan'')"
proof -
  have d: "digest32 (\<lambda>data. replicate 32 0)" by (simp add: digest32_def)
  have n: "normalizeName ''Jordan'' = Some ''jordan''" by code_simp
  from first_and_last_name_same_digest [OF d n,
      of "(empty_record :: unit UserData)\<lparr>first_name := Some ''Jordan'', last_name := Some ''Jordan''\<rparr>"
         "Normalizer no_options"]
  show ?thesis by simp
qed

subsection \<open>C9: the country code is not validated\<close>

text \<open>
  C9: for every string \<open>c\<close> and every input that leaves exactly ten
  characters \<open>d\<close> after stripping, \<open>normalizePhone\<close> with the country code
  \<open>c\<close>, given as argument or configured as default, returns \<open>+\<close>, \<open>c\<close>
  and \<open>d\<close>; without either the code is \<open>1\<close>.
\<close>

theorem normalizePhone_country_code_unchecked:
  "phone_digits input = d \<Longrightarrow> length d = 10 \<Longrightarrow>
     normalizePhone this input (Some c) = Some (''+'' @ c @ d) \<and>
     normalizePhone (Normalizer \<lparr>opt_defaultCountryCode = Some c, opt_hashAddressFields = h\<rparr>) input None
       = Some (''+'' @ c @ d) \<and>
     normalizePhone (Normalizer \<lparr>opt_defaultCountryCode = None, opt_hashAddressFields = h\<rparr>) input None
       = Some (''+1'' @ d)"
  by (auto simp: normalizePhone_digits Normalizer_def phone_digits_def keep_digits_and_plus_def
        startsWith_plus_def)

text \<open>C9 at a country code that is no number.\<close>

theorem normalizePhone_country_code_unchecked_witness:
  "normalizePhone (Normalizer no_options) ''(555) 123-4567'' (Some ''x-'') = Some ''+x-5551234567''"
proof -
  have d: "phone_digits ''(555) 123-4567'' = ''5551234567''" by code_simp
  have l: "length ''5551234567'' = 10" by simp
  from normalizePhone_country_code_unchecked [OF d l, of "Normalizer no_options" "''x-''"]
  show ?thesis by simp
qed

subsection \<open>C10: the batch hashes the phone with the default country code\<close>

text \<open>
  C10: the phone of the result of the batch is what \<open>hashPhone\<close> returns for
  the phone of the input without a country code argument (absent when the
  input has no phone), and that is \<open>hashPhone\<close> under the configured default
  country code.
\<close>

theorem batch_phone_default_country_code:
  "digest32 digest \<Longrightarrow>
     phone (normalize_batch digest this raw)
       = (case phone raw of None \<Rightarrow> None | Some p \<Rightarrow> hashPhone digest this p None) \<and>
     hashPhone digest this p' None = hashPhone digest this p' (Some (defaultCountryCode this))"
  by (auto simp: normalize_batch_fields hashed_field_def truthy_def hashPhone_def Let_def
        sha256_not_empty normalizePhone_Nil normalizePhone_digits split: option.splits)

text \<open>C10 at a record with a British number, the default country code being \<open>44\<close>.\<close>

theorem batch_phone_default_country_code_witness:
  "phone (normalize_batch (\<lambda>data. replicate 32 0)
      (Normalizer \<lparr>opt_defaultCountryCode = Some ''44'', opt_hashAddressFields = None\<rparr>)
      ((empty_record :: unit UserData)\<lparr>phone := Some ''2079460958''\<rparr>))
     = hashPhone (\<lambda>data. replicate 32 0)
         (Normalizer \<lparr>opt_defaultCountryCode = Some ''44'', opt_hashAddressFields = None\<rparr>)
         ''2079460958'' (Some ''44'')"
proof -
  have d: "digest32 (\<lambda>data. replicate 32 0)" by (simp add: digest32_def)
  from batch_phone_default_country_code [OF d,
      of "Normalizer \<lparr>opt_defaultCountryCode = Some ''44'', opt_hashAddressFields = None\<rparr>"
         "(empty_record :: unit UserData)\<lparr>phone := Some ''2079460958''\<rparr>" "''2079460958''"]
  show ?thesis by (simp add: Normalizer_def)
qed

end
